theory Spec2Isabelle
  imports Main
begin

section \<open>The application shell of Inboxly: theme state, session state, route guard\<close>

text \<open>
  The source is \<^verbatim>\<open>src/frontend/src/App.jsx\<close>: a theme provider, an auth provider and a
  route guard, all of them reading and writing the browser's \<^verbatim>\<open>localStorage\<close>.

  The embedding passes the state explicitly. One record holds everything the two providers
  own or touch: the persisted store, the React state variables, the \<^verbatim>\<open>dark\<close> class of the
  document element, and three logs (requests sent, console errors, calls of
  \<^verbatim>\<open>setLoading\<close>) that make the effects of a run observable.

  Conventions of the embedding:
  \<^item> a JavaScript value that may be \<^verbatim>\<open>null\<close> is an \<open>option\<close>, \<open>None\<close> standing for
    \<^verbatim>\<open>null\<close>; the user record itself is opaque (a type variable);
  \<^item> state updates requested by one handler or one continuation of an async function are
    committed together (React's batching), so a handler is one step of the model;
  \<^item> an effect with dependency list \<^verbatim>\<open>[isDark]\<close> runs after the first commit and after every
    commit that changed \<^verbatim>\<open>isDark\<close>;
  \<^item> the async function \<^verbatim>\<open>checkAuthStatus\<close> is split at its first \<^verbatim>\<open>await\<close>: the part that
    runs at mount, and the part that runs when \<^verbatim>\<open>fetch\<close> settles. Handlers may run in
    between.
\<close>

subsection \<open>The persisted store\<close>

type_synonym storage = "string \<rightharpoonup> string"

definition getItem :: "storage \<Rightarrow> string \<Rightarrow> string option" where
  "getItem st k = st k"

definition setItem :: "storage \<Rightarrow> string \<Rightarrow> string \<Rightarrow> storage" where
  "setItem st k v = st(k \<mapsto> v)"

definition removeItem :: "storage \<Rightarrow> string \<Rightarrow> storage" where
  "removeItem st k = st(k := None)"

definition theme_key :: string where
  "theme_key = ''inboxly-theme''"

definition token_key :: string where
  "token_key = ''inboxly-token''"

text \<open>
  \<^verbatim>\<open>if (token)\<close> tests the value \<^verbatim>\<open>getItem\<close> returned for truthiness: \<^verbatim>\<open>null\<close> is falsy, and so
  is the empty string.
\<close>

fun truthy :: "string option \<Rightarrow> bool" where
  "truthy None = False"
| "truthy (Some s) = (s \<noteq> [])"

subsection \<open>State\<close>

record 'u app =
  localStorage :: storage
  dark_class :: bool
  isDark :: bool
  isAuthenticated :: bool
  user :: "'u option"
  loading :: bool
  awaiting :: bool
  fetches :: "(string \<times> (string \<times> string) list) list"
  console_errors :: "(string \<times> string) list"
  setLoading_calls :: "bool list"

text \<open>
  \<open>dark_class\<close>: whether \<^verbatim>\<open>document.documentElement.classList\<close> contains \<^verbatim>\<open>dark\<close>.
  \<open>awaiting\<close>: \<^verbatim>\<open>checkAuthStatus\<close> is suspended at \<^verbatim>\<open>await fetch(...)\<close>.
  \<open>fetches\<close>: the requests issued, each with its URL and headers.

  The state before the first render: \<^verbatim>\<open>useState(true)\<close> for \<^verbatim>\<open>isDark\<close>, \<^verbatim>\<open>useState(false)\<close> for
  \<^verbatim>\<open>isAuthenticated\<close>, \<^verbatim>\<open>useState(null)\<close> for \<^verbatim>\<open>user\<close>, \<^verbatim>\<open>useState(true)\<close> for \<^verbatim>\<open>loading\<close>. The
  store and the class of the document element are what the browser holds at that moment.
\<close>

definition initial_app :: "storage \<Rightarrow> bool \<Rightarrow> 'u app" where
  "initial_app st dc =
     \<lparr>localStorage = st, dark_class = dc, isDark = True, isAuthenticated = False,
      user = None, loading = True, awaiting = False, fetches = [], console_errors = [],
      setLoading_calls = []\<rparr>"

subsection \<open>Theme provider\<close>

text \<open>
  The first effect (dependencies \<^verbatim>\<open>[]\<close>) reads the saved theme and may request a state
  update; \<open>saved_theme_update\<close> is the argument of that \<^verbatim>\<open>setIsDark\<close> call, if there is one.
\<close>

definition saved_theme_update :: "'u app \<Rightarrow> bool option" where
  "saved_theme_update w =
     (let savedTheme = getItem (localStorage w) theme_key
      in if savedTheme = Some ''light'' then Some False
         else if savedTheme = Some ''dark'' then Some True
         else None)"

text \<open>The second effect (dependencies \<^verbatim>\<open>[isDark]\<close>).\<close>

definition theme_effect :: "'u app \<Rightarrow> 'u app" where
  "theme_effect w =
     w\<lparr>dark_class := isDark w,
       localStorage := setItem (localStorage w) theme_key (if isDark w then ''dark'' else ''light'')\<rparr>"

text \<open>
  Mounting: both effects run after the first commit, in source order, with the
  \<^verbatim>\<open>isDark\<close> of the first render; a requested update that changes \<^verbatim>\<open>isDark\<close> causes a second
  commit, after which the second effect runs again.
\<close>

definition ThemeProvider_mount :: "'u app \<Rightarrow> 'u app" where
  "ThemeProvider_mount w =
     (let upd = saved_theme_update w;
          w1 = theme_effect w
      in case upd of
           None \<Rightarrow> w1
         | Some b \<Rightarrow> if b = isDark w1 then w1 else theme_effect (w1\<lparr>isDark := b\<rparr>))"

definition toggleTheme :: "'u app \<Rightarrow> 'u app" where
  "toggleTheme w = theme_effect (w\<lparr>isDark := \<not> isDark w\<rparr>)"

subsection \<open>Auth provider\<close>

text \<open>
  What \<^verbatim>\<open>await fetch(...)\<close> settles to: the promise rejects (transport failure), or it
  yields a response with its \<^verbatim>\<open>ok\<close> flag and with what \<^verbatim>\<open>response.json()\<close> would settle to
  (a rejection, or the parsed value, which may be \<^verbatim>\<open>null\<close>).
\<close>

datatype 'u fetch_result =
    Rejected string
  | Response bool "string + 'u option"

definition console_error :: "string \<Rightarrow> string \<Rightarrow> 'u app \<Rightarrow> 'u app" where
  "console_error msg e w = w\<lparr>console_errors := console_errors w @ [(msg, e)]\<rparr>"

definition setLoading :: "bool \<Rightarrow> 'u app \<Rightarrow> 'u app" where
  "setLoading b w = w\<lparr>loading := b, setLoading_calls := setLoading_calls w @ [b]\<rparr>"

text \<open>\<^verbatim>\<open>checkAuthStatus\<close> up to its first \<^verbatim>\<open>await\<close>.\<close>

definition checkAuthStatus_start :: "'u app \<Rightarrow> 'u app" where
  "checkAuthStatus_start w =
     (case getItem (localStorage w) token_key of
        None \<Rightarrow> setLoading False w
      | Some token \<Rightarrow>
          if truthy (Some token)
          then w\<lparr>fetches := fetches w @
                   [(''/api/auth/verify'', [(''Authorization'', ''Bearer '' @ token)])],
                 awaiting := True\<rparr>
          else setLoading False w)"

text \<open>
  \<^verbatim>\<open>checkAuthStatus\<close> from the moment \<^verbatim>\<open>fetch\<close> settles: the rest of the \<^verbatim>\<open>try\<close> block, the
  \<^verbatim>\<open>catch\<close> and the \<^verbatim>\<open>finally\<close>. Nothing happens when no request is in flight. The second
  \<^verbatim>\<open>await\<close> (on \<^verbatim>\<open>response.json()\<close>) is not a step of its own: the function writes nothing
  between the two, so a handler running there has the effect of one running before.
\<close>

definition checkAuthStatus_resume :: "'u fetch_result \<Rightarrow> 'u app \<Rightarrow> 'u app" where
  "checkAuthStatus_resume r w =
     (if \<not> awaiting w then w
      else
        let w0 = w\<lparr>awaiting := False\<rparr>;
            w1 = (case r of
                    Rejected e \<Rightarrow> console_error ''Auth check failed:'' e w0
                  | Response ok body \<Rightarrow>
                      if ok
                      then (case body of
                              Inl e \<Rightarrow> console_error ''Auth check failed:'' e w0
                            | Inr userData \<Rightarrow> w0\<lparr>isAuthenticated := True, user := userData\<rparr>)
                      else w0\<lparr>localStorage := removeItem (localStorage w0) token_key\<rparr>)
        in setLoading False w1)"

definition login :: "string \<Rightarrow> 'u option \<Rightarrow> 'u app \<Rightarrow> 'u app" where
  "login token userData w =
     w\<lparr>localStorage := setItem (localStorage w) token_key token,
       isAuthenticated := True,
       user := userData\<rparr>"

definition logout :: "'u app \<Rightarrow> 'u app" where
  "logout w =
     w\<lparr>localStorage := removeItem (localStorage w) token_key,
       isAuthenticated := False,
       user := None\<rparr>"

subsection \<open>Mounting the application, and what can happen afterwards\<close>

text \<open>
  \<^verbatim>\<open>App\<close> nests the auth provider inside the theme provider. After the first commit the
  effects of the inner component run before those of the outer one.
\<close>

definition App_mount :: "storage \<Rightarrow> bool \<Rightarrow> 'u app" where
  "App_mount st dc = ThemeProvider_mount (checkAuthStatus_start (initial_app st dc))"

text \<open>A mount whose verification request, if one was sent, settles before anything else happens.\<close>

definition mount_resolved :: "storage \<Rightarrow> bool \<Rightarrow> 'u fetch_result \<Rightarrow> 'u app" where
  "mount_resolved st dc r = checkAuthStatus_resume r (App_mount st dc)"

datatype 'u event =
    Settle "'u fetch_result"
  | Login string "'u option"
  | Logout
  | ToggleTheme

fun exec :: "'u event \<Rightarrow> 'u app \<Rightarrow> 'u app" where
  "exec (Settle r) w = checkAuthStatus_resume r w"
| "exec (Login token userData) w = login token userData w"
| "exec Logout w = logout w"
| "exec ToggleTheme w = toggleTheme w"

definition run :: "'u event list \<Rightarrow> 'u app \<Rightarrow> 'u app" where
  "run evs w = fold exec evs w"

subsection \<open>Route guard\<close>

text \<open>
  \<^verbatim>\<open>useAuth\<close> throws outside a provider; inside one the context value is an object holding
  the session state. The guard returns one of three elements.
\<close>

datatype hook_error = OutsideProvider string

record 'u auth_context =
  ctx_isAuthenticated :: bool
  ctx_user :: "'u option"
  ctx_loading :: bool

definition auth_value :: "'u app \<Rightarrow> 'u auth_context" where
  "auth_value w =
     \<lparr>ctx_isAuthenticated = isAuthenticated w, ctx_user = user w, ctx_loading = loading w\<rparr>"

definition useAuth :: "'c option \<Rightarrow> hook_error + 'c" where
  "useAuth context =
     (case context of
        None \<Rightarrow> Inl (OutsideProvider ''useAuth must be used within an AuthProvider'')
      | Some c \<Rightarrow> Inr c)"

definition useTheme :: "'c option \<Rightarrow> hook_error + 'c" where
  "useTheme context =
     (case context of
        None \<Rightarrow> Inl (OutsideProvider ''useTheme must be used within a ThemeProvider'')
      | Some c \<Rightarrow> Inr c)"

datatype 'c element =
    Spinner
  | Children 'c
  | Navigate string bool

definition ProtectedRoute :: "'c \<Rightarrow> 'u auth_context option \<Rightarrow> hook_error + 'c element" where
  "ProtectedRoute children context =
     (case useAuth context of
        Inl err \<Rightarrow> Inl err
      | Inr c \<Rightarrow>
          if ctx_loading c then Inr Spinner
          else Inr (if ctx_isAuthenticated c then Children children else Navigate ''/auth'' True))"

subsection \<open>Events that hand over no user record\<close>

text \<open>
  \<^verbatim>\<open>login(token, null)\<close>, and a successful verification whose body parses to \<^verbatim>\<open>null\<close>: the two
  events that call \<^verbatim>\<open>setIsAuthenticated(true)\<close> together with \<^verbatim>\<open>setUser(null)\<close>.
\<close>

fun null_user :: "'u event \<Rightarrow> bool" where
  "null_user (Login token None) = True"
| "null_user (Settle (Response True (Inr None))) = True"
| "null_user e = False"

section \<open>Properties\<close>

lemmas store_defs = getItem_def setItem_def removeItem_def theme_key_def token_key_def

lemmas theme_defs = ThemeProvider_mount_def saved_theme_update_def theme_effect_def toggleTheme_def

lemmas auth_defs = checkAuthStatus_start_def checkAuthStatus_resume_def console_error_def
  setLoading_def login_def logout_def

lemmas mount_defs = App_mount_def mount_resolved_def initial_app_def

subsection \<open>Verification at mount\<close>

text \<open>
  The request is sent exactly when the stored token is a non-empty string, and it carries
  the token as a bearer credential.
\<close>

lemma mount_awaiting_iff:
  "awaiting (App_mount st dc :: 'u app) = truthy (getItem st token_key)"
  by (simp add: mount_defs theme_defs auth_defs store_defs Let_def split: option.splits)

lemma mount_fetches:
  "fetches (App_mount st dc :: 'u app) =
     (case getItem st token_key of
        None \<Rightarrow> []
      | Some t \<Rightarrow> if t = [] then []
                  else [(''/api/auth/verify'', [(''Authorization'', ''Bearer '' @ t)])])"
  by (simp add: mount_defs theme_defs auth_defs store_defs Let_def split: option.splits)

text \<open>
  C1, as stated: whenever the store holds a token and the endpoint answers with a success
  status and a parseable body, the session ends authenticated. The code tests the token
  for truthiness, so with the empty string stored under the token key no request is sent
  and the session stays unauthenticated, whatever the endpoint would answer.
\<close>

theorem verify_success_empty_token_counterexample:
  "getItem [token_key \<mapsto> ''''] token_key = Some '''' \<and>
   \<not> isAuthenticated
       (mount_resolved [token_key \<mapsto> ''''] False (Response True (Inr (Some (1::nat))))) \<and>
   user (mount_resolved [token_key \<mapsto> ''''] False (Response True (Inr (Some (1::nat))))) = None"
  by (simp add: mount_defs theme_defs auth_defs store_defs)

text \<open>
  C1, amended: for every initial mount where the store holds a non-empty token and the
  verification endpoint responds with a success status and a parseable body, the session
  resolves to \<open>loading = False\<close>, \<open>isAuthenticated = True\<close> and \<open>user\<close> equal to the parsed
  body.
\<close>

theorem verify_success_authenticates:
  assumes "getItem st token_key = Some t" and "t \<noteq> []"
  shows "\<not> loading (mount_resolved st dc (Response True (Inr body))) \<and>
     isAuthenticated (mount_resolved st dc (Response True (Inr body))) \<and>
     user (mount_resolved st dc (Response True (Inr body))) = body"
  using assms
  by (simp add: mount_defs theme_defs auth_defs store_defs Let_def split: option.splits)

theorem verify_success_authenticates_witness:
  "getItem [token_key \<mapsto> ''abc''] token_key = Some ''abc'' \<and> ''abc'' \<noteq> [] \<and>
   \<not> loading (mount_resolved [token_key \<mapsto> ''abc''] False
        (Response True (Inr (Some (1::nat, ''Al''))))) \<and>
   isAuthenticated (mount_resolved [token_key \<mapsto> ''abc''] False
        (Response True (Inr (Some (1::nat, ''Al''))))) \<and>
   user (mount_resolved [token_key \<mapsto> ''abc''] False
        (Response True (Inr (Some (1::nat, ''Al''))))) = Some (1, ''Al'')"
proof -
  have h: "getItem [token_key \<mapsto> ''abc''] token_key = Some ''abc''"
    by (simp add: getItem_def)
  have n: "''abc'' \<noteq> []"
    by simp
  show ?thesis
    using h n verify_success_authenticates [OF h n, of False "Some (1::nat, ''Al'')"] by simp
qed

text \<open>
  C2, as stated: whenever the store holds a token and the endpoint answers with a
  non-success status, the token key is deleted. With the empty string stored under the
  token key no request is sent, the non-success branch is never reached and the key stays.
\<close>

theorem verify_rejected_empty_token_counterexample:
  "getItem [token_key \<mapsto> ''''] token_key = Some '''' \<and>
   getItem (localStorage (mount_resolved [token_key \<mapsto> ''''] False
       (Response False (Inl ''Unauthorized'') :: nat fetch_result))) token_key = Some ''''"
  by (simp add: mount_defs theme_defs auth_defs store_defs)

text \<open>
  C2, amended: for every initial mount where the store holds a non-empty token and the
  verification endpoint responds with a non-success status (whatever its body), the
  session resolves to \<open>isAuthenticated = False\<close> and the token key is deleted from the store.
\<close>

theorem verify_rejected_removes_token:
  assumes "getItem st token_key = Some t" and "t \<noteq> []"
  shows "\<not> isAuthenticated (mount_resolved st dc (Response False body)) \<and>
     getItem (localStorage (mount_resolved st dc (Response False body))) token_key = None"
  using assms
  by (simp add: mount_defs theme_defs auth_defs store_defs Let_def split: option.splits)

theorem verify_rejected_removes_token_witness:
  "getItem [token_key \<mapsto> ''abc''] token_key = Some ''abc'' \<and> ''abc'' \<noteq> [] \<and>
   \<not> isAuthenticated (mount_resolved [token_key \<mapsto> ''abc''] False
        (Response False (Inl ''Unauthorized'') :: nat fetch_result)) \<and>
   getItem (localStorage (mount_resolved [token_key \<mapsto> ''abc''] False
        (Response False (Inl ''Unauthorized'') :: nat fetch_result))) token_key = None"
proof -
  have h: "getItem [token_key \<mapsto> ''abc''] token_key = Some ''abc''"
    by (simp add: getItem_def)
  have n: "''abc'' \<noteq> []"
    by simp
  show ?thesis
    using h n verify_rejected_removes_token
      [OF h n, of False "Inl ''Unauthorized'' :: string + nat option"]
    by simp
qed

text \<open>
  C3: for every initial mount where the store holds no token, the session is at
  \<open>loading = False\<close> and \<open>isAuthenticated = False\<close> as soon as the mount effects have run,
  no request has been issued and none is in flight; a response arriving later changes
  nothing.
\<close>

theorem mount_without_token:
  assumes "getItem st token_key = None"
  shows "\<not> loading (App_mount st dc :: 'u app) \<and>
     \<not> isAuthenticated (App_mount st dc :: 'u app) \<and>
     fetches (App_mount st dc :: 'u app) = [] \<and>
     \<not> awaiting (App_mount st dc :: 'u app) \<and>
     mount_resolved st dc r = App_mount st dc"
  using assms
  by (simp add: mount_defs theme_defs auth_defs store_defs Let_def split: option.splits)

theorem mount_without_token_witness:
  "getItem Map.empty token_key = None \<and>
   \<not> loading (App_mount Map.empty False :: nat app) \<and>
   \<not> isAuthenticated (App_mount Map.empty False :: nat app) \<and>
   fetches (App_mount Map.empty False :: nat app) = [] \<and>
   \<not> awaiting (App_mount Map.empty False :: nat app) \<and>
   mount_resolved Map.empty False (Rejected ''offline'') = (App_mount Map.empty False :: nat app)"
proof -
  have h: "getItem Map.empty token_key = None"
    by (simp add: getItem_def)
  show ?thesis
    using h mount_without_token [OF h, of False "Rejected ''offline'' :: nat fetch_result"]
    by simp
qed

text \<open>
  C5, as stated: whenever the store holds a token and the verification fails at the
  transport or parse level, the failure is logged. With the empty string stored under the
  token key no request is sent, so a transport that would fail is never used and nothing
  is logged.
\<close>

theorem verify_failure_empty_token_counterexample:
  "getItem [token_key \<mapsto> ''''] token_key = Some '''' \<and>
   console_errors (mount_resolved [token_key \<mapsto> ''''] False
       (Rejected ''Failed to fetch'' :: nat fetch_result)) = []"
  by (simp add: mount_defs theme_defs auth_defs store_defs)

text \<open>
  C5, amended: for every initial mount where the store holds a non-empty token and the
  verification request fails at the transport level (\<^verbatim>\<open>fetch\<close> rejects) or at the parse
  level (the status is a success and \<^verbatim>\<open>response.json()\<close> rejects), the persisted token is
  left untouched, the failure is logged (once, after the prefix \<^verbatim>\<open>Auth check failed:\<close>),
  \<open>isAuthenticated\<close> remains false, and \<^verbatim>\<open>setLoading\<close> is called exactly once, with
  \<^verbatim>\<open>false\<close>.
\<close>

theorem verify_failure_keeps_token:
  assumes "getItem st token_key = Some t" and "t \<noteq> []"
    and "r = Rejected e \<or> r = Response True (Inl e)"
  shows "getItem (localStorage (mount_resolved st dc r)) token_key = Some t \<and>
     console_errors (mount_resolved st dc r) = [(''Auth check failed:'', e)] \<and>
     \<not> isAuthenticated (mount_resolved st dc r) \<and>
     \<not> loading (mount_resolved st dc r) \<and>
     setLoading_calls (mount_resolved st dc r) = [False]"
  using assms
  by (auto simp add: mount_defs theme_defs auth_defs store_defs Let_def split: option.splits)

theorem verify_failure_keeps_token_witness:
  "getItem [token_key \<mapsto> ''abc''] token_key = Some ''abc'' \<and> ''abc'' \<noteq> [] \<and>
   getItem (localStorage (mount_resolved [token_key \<mapsto> ''abc''] False
       (Response True (Inl ''Unexpected token'') :: nat fetch_result))) token_key = Some ''abc'' \<and>
   console_errors (mount_resolved [token_key \<mapsto> ''abc''] False
       (Response True (Inl ''Unexpected token'') :: nat fetch_result))
     = [(''Auth check failed:'', ''Unexpected token'')] \<and>
   \<not> isAuthenticated (mount_resolved [token_key \<mapsto> ''abc''] False
       (Response True (Inl ''Unexpected token'') :: nat fetch_result)) \<and>
   \<not> loading (mount_resolved [token_key \<mapsto> ''abc''] False
       (Response True (Inl ''Unexpected token'') :: nat fetch_result)) \<and>
   setLoading_calls (mount_resolved [token_key \<mapsto> ''abc''] False
       (Response True (Inl ''Unexpected token'') :: nat fetch_result)) = [False]"
proof -
  have h: "getItem [token_key \<mapsto> ''abc''] token_key = Some ''abc''"
    by (simp add: getItem_def)
  have n: "''abc'' \<noteq> []"
    by simp
  have r: "(Response True (Inl ''Unexpected token'') :: nat fetch_result) = Rejected ''Unexpected token''
      \<or> (Response True (Inl ''Unexpected token'') :: nat fetch_result) = Response True (Inl ''Unexpected token'')"
    by simp
  show ?thesis
    using h n verify_failure_keeps_token [OF h n r, of False] by simp
qed

subsection \<open>Route guard\<close>

text \<open>
  C4: for every session state, the guard rendered inside the provider decides as follows:
  while \<open>loading\<close> it renders the waiting indicator; once \<open>loading\<close> is false it renders the
  wrapped content if \<open>isAuthenticated\<close>, and otherwise navigates to \<^verbatim>\<open>/auth\<close> with
  \<^verbatim>\<open>replace\<close>. It never raises there.
\<close>

theorem ProtectedRoute_decision:
  "ProtectedRoute children (Some (auth_value w)) =
     Inr (if loading w then Spinner
          else if isAuthenticated w then Children children
          else Navigate ''/auth'' True)"
  by (simp add: ProtectedRoute_def useAuth_def auth_value_def)

subsection \<open>Theme\<close>

text \<open>
  C9: at theme initialisation, a persisted theme that is exactly \<^verbatim>\<open>light\<close> makes \<open>isDark\<close>
  false, one that is exactly \<^verbatim>\<open>dark\<close> makes it true, and any other value, absence included,
  leaves the default true. The mount is a total function with no error branch.
\<close>

theorem theme_initialisation:
  "isDark (App_mount st dc :: 'u app) =
     (if getItem st theme_key = Some ''light'' then False
      else if getItem st theme_key = Some ''dark'' then True
      else True)"
  by (simp add: mount_defs theme_defs auth_defs getItem_def Let_def split: option.splits)

text \<open>
  C8: for every state, two calls of \<^verbatim>\<open>toggleTheme\<close> bring \<open>isDark\<close> back to its value, and
  after the first call as after the second the persisted theme string is the encoding of
  the \<open>isDark\<close> then in memory (\<^verbatim>\<open>dark\<close> for true, \<^verbatim>\<open>light\<close> for false).
\<close>

theorem toggleTheme_round_trip:
  "isDark (toggleTheme (toggleTheme w)) = isDark w \<and>
   getItem (localStorage (toggleTheme w)) theme_key
     = Some (if isDark (toggleTheme w) then ''dark'' else ''light'') \<and>
   getItem (localStorage (toggleTheme (toggleTheme w))) theme_key
     = Some (if isDark (toggleTheme (toggleTheme w)) then ''dark'' else ''light'')"
  by (simp add: toggleTheme_def theme_effect_def getItem_def setItem_def)

text \<open>
  C10: theme and session do not interfere. \<^verbatim>\<open>toggleTheme\<close> leaves \<open>isAuthenticated\<close>, \<open>user\<close>,
  \<open>loading\<close> and the persisted token unchanged; \<^verbatim>\<open>login\<close> and \<^verbatim>\<open>logout\<close> leave \<open>isDark\<close> and
  the persisted theme unchanged.
\<close>

theorem theme_session_frame:
  "isAuthenticated (toggleTheme w) = isAuthenticated w \<and>
   user (toggleTheme w) = user w \<and>
   loading (toggleTheme w) = loading w \<and>
   getItem (localStorage (toggleTheme w)) token_key = getItem (localStorage w) token_key \<and>
   isDark (login token userData w) = isDark w \<and>
   getItem (localStorage (login token userData w)) theme_key = getItem (localStorage w) theme_key \<and>
   isDark (logout w) = isDark w \<and>
   getItem (localStorage (logout w)) theme_key = getItem (localStorage w) theme_key"
  by (simp add: toggleTheme_def theme_effect_def login_def logout_def store_defs)

subsection \<open>Reachable session states\<close>

text \<open>
  The states reachable from a mount are \<open>run evs (App_mount st dc)\<close>: the verification
  settling, \<^verbatim>\<open>login\<close>, \<^verbatim>\<open>logout\<close> and \<^verbatim>\<open>toggleTheme\<close> in any order. Two invariants of one
  step, then of a run.
\<close>

lemma mount_unauthenticated:
  "\<not> isAuthenticated (App_mount st dc :: 'u app) \<and> user (App_mount st dc :: 'u app) = None"
  by (simp add: mount_defs theme_defs auth_defs store_defs Let_def split: option.splits)

lemma exec_user_present:
  assumes "\<not> null_user e" and "isAuthenticated w \<longrightarrow> user w \<noteq> None"
  shows "isAuthenticated (exec e w) \<longrightarrow> user (exec e w) \<noteq> None"
proof (cases e)
  case (Settle r)
  with assms show ?thesis
    by (cases r)
      (auto simp: auth_defs Let_def split: sum.splits option.splits if_splits
        elim: null_user.elims)
next
  case (Login t u)
  with assms show ?thesis by (cases u) (simp_all add: login_def)
next
  case Logout
  then show ?thesis by (simp add: logout_def)
next
  case ToggleTheme
  with assms show ?thesis by (simp add: theme_defs)
qed

lemma run_user_present:
  assumes "\<forall>e \<in> set evs. \<not> null_user e" and "isAuthenticated w \<longrightarrow> user w \<noteq> None"
  shows "isAuthenticated (run evs w) \<longrightarrow> user (run evs w) \<noteq> None"
  using assms unfolding run_def
proof (induction evs arbitrary: w)
  case Nil
  then show ?case by simp
next
  case (Cons e evs)
  have "isAuthenticated (exec e w) \<longrightarrow> user (exec e w) \<noteq> None"
    using Cons.prems by (intro exec_user_present) simp_all
  with Cons show ?case by simp
qed

lemma exec_unauthenticated_no_user:
  assumes "\<not> isAuthenticated w \<longrightarrow> user w = None"
  shows "\<not> isAuthenticated (exec e w) \<longrightarrow> user (exec e w) = None"
proof (cases e)
  case (Settle r)
  with assms show ?thesis
    by (cases r) (auto simp: auth_defs Let_def split: sum.splits option.splits if_splits)
next
  case (Login t u)
  with assms show ?thesis by (simp add: login_def)
next
  case Logout
  then show ?thesis by (simp add: logout_def)
next
  case ToggleTheme
  with assms show ?thesis by (simp add: theme_defs)
qed

lemma run_unauthenticated_no_user:
  assumes "\<not> isAuthenticated w \<longrightarrow> user w = None"
  shows "\<not> isAuthenticated (run evs w) \<longrightarrow> user (run evs w) = None"
  using assms unfolding run_def
proof (induction evs arbitrary: w)
  case Nil
  then show ?case by simp
next
  case (Cons e evs)
  have "\<not> isAuthenticated (exec e w) \<longrightarrow> user (exec e w) = None"
    using Cons.prems by (rule exec_unauthenticated_no_user)
  with Cons show ?case by simp
qed

text \<open>
  C6, as stated: in every reachable state \<open>isAuthenticated\<close> implies that the user record is
  present. \<^verbatim>\<open>login\<close> stores whatever it is given: \<^verbatim>\<open>login("abc", null)\<close> on a freshly mounted
  application gives \<open>isAuthenticated = True\<close> with \<open>user\<close> still \<^verbatim>\<open>null\<close>. So does a
  verification answered with a success status and the JSON body \<^verbatim>\<open>null\<close>.
\<close>

theorem authenticated_without_user_counterexample:
  "isAuthenticated (run [Login ''abc'' None] (App_mount Map.empty False :: nat app)) \<and>
   user (run [Login ''abc'' None] (App_mount Map.empty False :: nat app)) = None"
  by (simp add: run_def login_def)

text \<open>
  C6, amended: in every session state reachable through initialisation, verification
  resolution, login and logout (and theme toggles) in which no user value handed over was
  \<^verbatim>\<open>null\<close> (neither the \<^verbatim>\<open>userData\<close> of a \<^verbatim>\<open>login\<close> nor the parsed body of a successful
  verification), \<open>isAuthenticated\<close> implies that the user record is present.
\<close>

theorem authenticated_has_user:
  assumes "\<forall>e \<in> set evs. \<not> null_user e"
  shows "isAuthenticated (run evs (App_mount st dc)) \<longrightarrow> user (run evs (App_mount st dc)) \<noteq> None"
  using assms by (intro run_user_present) (simp_all add: mount_unauthenticated)

theorem authenticated_has_user_witness:
  "\<not> null_user (Settle (Response True (Inr (Some (1::nat))))) \<and>
   \<not> null_user (Logout :: nat event) \<and>
   \<not> null_user (Login ''xyz'' (Some (2::nat))) \<and>
   isAuthenticated (run [Settle (Response True (Inr (Some (1::nat)))), Logout, Login ''xyz'' (Some 2)]
      (App_mount [token_key \<mapsto> ''abc''] False)) \<and>
   user (run [Settle (Response True (Inr (Some (1::nat)))), Logout, Login ''xyz'' (Some 2)]
      (App_mount [token_key \<mapsto> ''abc''] False)) \<noteq> None"
proof -
  have h: "\<forall>e \<in> set [Settle (Response True (Inr (Some (1::nat)))), Logout, Login ''xyz'' (Some 2)].
      \<not> null_user e"
    by simp
  have a: "isAuthenticated
      (run [Settle (Response True (Inr (Some (1::nat)))), Logout, Login ''xyz'' (Some 2)]
        (App_mount [token_key \<mapsto> ''abc''] False))"
    by (simp add: run_def login_def)
  show ?thesis
    using h a authenticated_has_user [OF h, of "[token_key \<mapsto> ''abc'']" False] by simp
qed

text \<open>
  C7: in a reachable session state that is unauthenticated and whose store holds no
  token, \<^verbatim>\<open>logout\<close> changes nothing at all: the state after the call is the state before it
  (so still unauthenticated, user absent, token absent).
\<close>

theorem logout_idempotent:
  assumes "w = run evs (App_mount st dc)" and "\<not> isAuthenticated w"
    and "getItem (localStorage w) token_key = None"
  shows "logout w = w \<and> \<not> isAuthenticated (logout w) \<and> user (logout w) = None \<and>
     getItem (localStorage (logout w)) token_key = None"
proof -
  have u: "user w = None"
    using assms(1,2) run_unauthenticated_no_user [of "App_mount st dc" evs]
    by (simp add: mount_unauthenticated)
  have s: "removeItem (localStorage w) token_key = localStorage w"
    using assms(3) by (simp add: removeItem_def getItem_def fun_upd_idem)
  have "logout w = w"
    using u s assms(2) by (simp add: logout_def)
  with u assms(2,3) show ?thesis by simp
qed

theorem logout_idempotent_witness:
  "\<not> isAuthenticated (run [Login ''abc'' (Some (1::nat)), Logout] (App_mount Map.empty False)) \<and>
   getItem (localStorage (run [Login ''abc'' (Some (1::nat)), Logout] (App_mount Map.empty False)))
     token_key = None \<and>
   logout (run [Login ''abc'' (Some (1::nat)), Logout] (App_mount Map.empty False))
     = run [Login ''abc'' (Some (1::nat)), Logout] (App_mount Map.empty False)"
proof -
  have a: "\<not> isAuthenticated
      (run [Login ''abc'' (Some (1::nat)), Logout] (App_mount Map.empty False))"
    by (simp add: run_def logout_def)
  have t: "getItem (localStorage
      (run [Login ''abc'' (Some (1::nat)), Logout] (App_mount Map.empty False))) token_key = None"
    by (simp add: run_def logout_def login_def removeItem_def getItem_def)
  show ?thesis
    using a t logout_idempotent [OF refl a t] by simp
qed

end
